theory Spec2Isabelle
  imports Main "HOL-Library.Char_ord" "HOL-Library.List_Lexorder"
begin

unbundle bit_operations_syntax

section \<open>Python values and exceptions\<close>

text \<open>
  Paths are Python \<open>str\<close> values; a \<open>string\<close> holds the path in the form the operating
  system receives it (its bytes), so \<open>os.fspath\<close> on a \<open>str\<close> returns it as it is and
  \<open>os.fsencode\<close> only changes the Python type, from \<open>str\<close> to \<open>bytes\<close>.
\<close>

type_synonym path = string

datatype bytes = Bytes string

datatype errno = ENOENT | EEXIST | ENOTSUP | ELOOP | EBADF | ENOTTY | EINVAL | EXDEV | EIO

text \<open>
  The exceptions of the two modules. \<open>OSError\<close> carries its \<open>errno\<close> attribute, which is
  \<open>None\<close> for an \<open>OSError\<close> built from a message alone, and its message.
\<close>

datatype exn =
    OSError "errno option" string
  | KeyError string
  | AssertionError
  | EOFError
  | DuplicateStageName string
  | DvcException string
  | OtherError string

fun strerror :: "errno \<Rightarrow> string" where
  "strerror ENOENT = ''No such file or directory''"
| "strerror EEXIST = ''File exists''"
| "strerror ENOTSUP = ''Operation not supported''"
| "strerror ELOOP = ''Too many levels of symbolic links''"
| "strerror EBADF = ''Bad file descriptor''"
| "strerror ENOTTY = ''Inappropriate ioctl for device''"
| "strerror EINVAL = ''Invalid argument''"
| "strerror EXDEV = ''Invalid cross-device link''"
| "strerror EIO = ''Input/output error''"

definition os_error :: "errno \<Rightarrow> exn" where
  "os_error e = OSError (Some e) (strerror e)"

text \<open>A text between apostrophes, as the messages of the module quote names.\<close>

definition quoted :: "string \<Rightarrow> string" where
  "quoted x = CHR 0x27 # x @ [CHR 0x27]"

definition os_fspath :: "path \<Rightarrow> path" where
  "os_fspath p = p"

definition os_fsencode :: "path \<Rightarrow> bytes" where
  "os_fsencode p = Bytes p"


section \<open>The operating system under \<open>dvc/system.py\<close>\<close>

text \<open>
  \<open>System\<close> is a set of static methods over calls of the operating system, so the model
  carries the state those calls read and change:
  \<^item> one directory namespace, \<open>entries\<close>, binding names to inode numbers (several names
    may share a number: hard links); the first binding of a name is the one in force;
  \<^item> the inode table, \<open>inodes\<close>: an inode is a regular file with its content and its
    permission bits, or a symbolic link with the name it points to;
  \<^item> the table of open file descriptors, \<open>fds\<close>;
  \<^item> the file-creation mask of the process, the platform identifier that
    \<open>platform.system()\<close> returns, the answer of the filesystem to a clone request
    (\<open>None\<close>: it clones; \<open>Some e\<close>: it refuses with \<open>e\<close>), the libraries the dynamic
    loader finds, and the \<open>errno\<close> copy that \<open>ctypes\<close> keeps;
  \<^item> \<open>syslog\<close>, the calls issued so far that can change the system or load code, in
    order.
  Directories below the namespace, ownership and access rights are outside the model.
\<close>

datatype node = Reg string int | Lnk path

datatype open_mode = Mode_rb | Mode_wb_plus

datatype syscall =
    SysOpen path open_mode
  | SysClose nat
  | SysIoctl nat int nat
  | SysUnlink path
  | SysChmod path int
  | SysLink path path
  | SysSymlink path path
  | SysDlopen string
  | SysClonefile bytes bytes int

record fdesc =
  fd_ino :: nat
  fd_read :: bool
  fd_write :: bool

record clib =
  has_clonefile :: bool

record os_state =
  platform_system :: string
  entries :: "(path \<times> nat) list"
  inodes :: "nat \<Rightarrow> node"
  fds :: "(nat \<times> fdesc) list"
  proc_umask :: int
  clone_fault :: "errno option"
  dylibs :: "string \<Rightarrow> exn + clib"
  c_errno :: errno
  syslog :: "syscall list"

datatype ftype = S_IFREG | S_IFLNK

text \<open>
  The result of \<open>stat\<close> and \<open>lstat\<close>. \<open>st_mode\<close> is kept as its two parts: the file type
  (\<open>S_IFMT\<close>) and the permission bits.
\<close>

record stat_result =
  st_ino :: nat
  st_fmt :: ftype
  st_perm :: int
  st_nlink :: nat

definition logcall :: "syscall \<Rightarrow> os_state \<Rightarrow> os_state" where
  "logcall c s = s\<lparr>syslog := syslog s @ [c]\<rparr>"

definition lookup :: "os_state \<Rightarrow> path \<Rightarrow> nat option" where
  "lookup s p = map_of (entries s) p"

text \<open>The name a symbolic link at \<open>p\<close> points to, if \<open>p\<close> names a symbolic link.\<close>

definition readlink :: "os_state \<Rightarrow> path \<Rightarrow> path option" where
  "readlink s p =
     (case lookup s p of
        None \<Rightarrow> None
      | Some i \<Rightarrow> (case inodes s i of Lnk q \<Rightarrow> Some q | Reg _ _ \<Rightarrow> None))"

text \<open>
  Following symbolic links from a name to the last name of the chain, which is absent or
  names a regular file. The kernel gives up with \<open>ELOOP\<close> after 40 links.
\<close>

fun walk :: "nat \<Rightarrow> os_state \<Rightarrow> path \<Rightarrow> errno + path" where
  "walk 0 s p = (case readlink s p of None \<Rightarrow> Inr p | Some q \<Rightarrow> Inl ELOOP)"
| "walk (Suc n) s p = (case readlink s p of None \<Rightarrow> Inr p | Some q \<Rightarrow> walk n s q)"

definition SYMLOOP_MAX :: nat where
  "SYMLOOP_MAX = 40"

text \<open>The number of names bound to inode \<open>i\<close>.\<close>

definition nlink :: "os_state \<Rightarrow> nat \<Rightarrow> nat" where
  "nlink s i = length (filter (\<lambda>q. lookup s q = Some i) (remdups (map fst (entries s))))"

definition stat_of :: "os_state \<Rightarrow> nat \<Rightarrow> stat_result" where
  "stat_of s i =
     (case inodes s i of
        Reg d m \<Rightarrow> \<lparr>st_ino = i, st_fmt = S_IFREG, st_perm = m, st_nlink = nlink s i\<rparr>
      | Lnk q \<Rightarrow> \<lparr>st_ino = i, st_fmt = S_IFLNK, st_perm = 511, st_nlink = nlink s i\<rparr>)"

text \<open>\<open>os.lstat\<close>: the metadata of the entry itself.\<close>

definition os_lstat :: "path \<Rightarrow> os_state \<Rightarrow> exn + stat_result" where
  "os_lstat p s =
     (case lookup s p of
        None \<Rightarrow> Inl (os_error ENOENT)
      | Some i \<Rightarrow> Inr (stat_of s i))"


definition S_ISLNK :: "stat_result \<Rightarrow> bool" where
  "S_ISLNK st = (st_fmt st = S_IFLNK)"

text \<open>
  \<open>os.path.islink\<close> of the standard library: \<open>lstat\<close>, with \<open>OSError\<close> caught and
  answered by \<open>False\<close>.
\<close>

definition os_path_islink :: "path \<Rightarrow> os_state \<Rightarrow> exn + bool" where
  "os_path_islink p s =
     (case os_lstat p s of
        Inl (OSError en msg) \<Rightarrow> Inr False
      | Inl e \<Rightarrow> Inl e
      | Inr st \<Rightarrow> Inr (S_ISLNK st))"


text \<open>A number above every inode number in use by a name or an open descriptor.\<close>

definition fresh_ino :: "os_state \<Rightarrow> nat" where
  "fresh_ino s = Suc (fold max (map snd (entries s) @ map (\<lambda>(n, d). fd_ino d) (fds s)) 0)"

definition fresh_fd :: "os_state \<Rightarrow> nat" where
  "fresh_fd s = Suc (fold max (map fst (fds s)) 2)"

text \<open>\<open>os.symlink\<close>: a new symbolic link named \<open>dst\<close> pointing to \<open>src\<close>.\<close>

definition os_symlink :: "path \<Rightarrow> path \<Rightarrow> os_state \<Rightarrow> (exn + unit) \<times> os_state" where
  "os_symlink src dst s0 =
     (let s = logcall (SysSymlink src dst) s0 in
      if lookup s dst \<noteq> None then (Inl (os_error EEXIST), s)
      else (let i = fresh_ino s in
            (Inr (), s\<lparr>entries := entries s @ [(dst, i)], inodes := (inodes s)(i := Lnk src)\<rparr>)))"

text \<open>\<open>os.unlink\<close>: removes the name itself (a symbolic link is not followed).\<close>

definition os_unlink :: "path \<Rightarrow> os_state \<Rightarrow> (exn + unit) \<times> os_state" where
  "os_unlink p s0 =
     (let s = logcall (SysUnlink p) s0 in
      case lookup s p of
        None \<Rightarrow> (Inl (os_error ENOENT), s)
      | Some i \<Rightarrow> (Inr (), s\<lparr>entries := filter (\<lambda>e. fst e \<noteq> p) (entries s)\<rparr>))"

text \<open>
  \<open>os.chmod\<close>: follows symbolic links and replaces the permission bits of the file by the
  low twelve bits of the mode.
\<close>

definition os_chmod :: "path \<Rightarrow> int \<Rightarrow> os_state \<Rightarrow> (exn + unit) \<times> os_state" where
  "os_chmod p m s0 =
     (let s = logcall (SysChmod p m) s0 in
      case walk SYMLOOP_MAX s p of
        Inl e \<Rightarrow> (Inl (os_error e), s)
      | Inr q \<Rightarrow>
          (case lookup s q of
             None \<Rightarrow> (Inl (os_error ENOENT), s)
           | Some i \<Rightarrow>
               (case inodes s i of
                  Reg d m0 \<Rightarrow> (Inr (), s\<lparr>inodes := (inodes s)(i := Reg d (m AND 4095))\<rparr>)
                | Lnk t \<Rightarrow> (Inl (os_error ELOOP), s))))"

text \<open>
  The builtin \<open>open\<close> in the two modes the module uses. \<open>"rb"\<close> opens an existing file
  for reading. \<open>"wb+"\<close> opens for reading and writing, creates the file when the name is
  free (with mode \<open>0o666\<close> less the process's mask) and truncates it otherwise. Both
  follow symbolic links. The result is the descriptor (\<open>fileno()\<close>) of the file object.
\<close>

definition py_open :: "path \<Rightarrow> open_mode \<Rightarrow> os_state \<Rightarrow> (exn + nat) \<times> os_state" where
  "py_open p md s0 =
     (let s = logcall (SysOpen p md) s0 in
      case walk SYMLOOP_MAX s p of
        Inl e \<Rightarrow> (Inl (os_error e), s)
      | Inr q \<Rightarrow>
          (let fd = fresh_fd s in
           case md of
             Mode_rb \<Rightarrow>
               (case lookup s q of
                  None \<Rightarrow> (Inl (os_error ENOENT), s)
                | Some i \<Rightarrow>
                    (Inr fd, s\<lparr>fds := (fd, \<lparr>fd_ino = i, fd_read = True, fd_write = False\<rparr>) # fds s\<rparr>))
           | Mode_wb_plus \<Rightarrow>
               (case lookup s q of
                  None \<Rightarrow>
                    (let i = fresh_ino s in
                     (Inr fd,
                      s\<lparr>entries := entries s @ [(q, i)],
                        inodes := (inodes s)(i := Reg [] (438 AND NOT (proc_umask s))),
                        fds := (fd, \<lparr>fd_ino = i, fd_read = True, fd_write = True\<rparr>) # fds s\<rparr>))
                | Some i \<Rightarrow>
                    (Inr fd,
                     s\<lparr>inodes := (inodes s)(i := (case inodes s i of Reg d m \<Rightarrow> Reg [] m | Lnk t \<Rightarrow> Lnk t)),
                       fds := (fd, \<lparr>fd_ino = i, fd_read = True, fd_write = True\<rparr>) # fds s\<rparr>))))"

text \<open>Closing a file object, at the exit of its \<open>with\<close> block.\<close>

definition py_close :: "nat \<Rightarrow> os_state \<Rightarrow> os_state" where
  "py_close fd s0 =
     (let s = logcall (SysClose fd) s0 in
      s\<lparr>fds := filter (\<lambda>e. fst e \<noteq> fd) (fds s)\<rparr>)"

definition FICLONE :: int where
  "FICLONE = 0x40049409"

text \<open>
  \<open>fcntl.ioctl(fd, request, arg)\<close>. The one request the model knows is \<open>FICLONE\<close>, whose
  argument is the descriptor of the file to clone from: the file behind \<open>fd\<close> takes the
  content of the file behind \<open>arg\<close>, unless the filesystem refuses.
\<close>

definition fcntl_ioctl :: "nat \<Rightarrow> int \<Rightarrow> nat \<Rightarrow> os_state \<Rightarrow> (exn + unit) \<times> os_state" where
  "fcntl_ioctl fd request arg s0 =
     (let s = logcall (SysIoctl fd request arg) s0 in
      if request \<noteq> 0x40049409 then (Inl (os_error ENOTTY), s)
      else
        (case map_of (fds s) fd of
           None \<Rightarrow> (Inl (os_error EBADF), s)
         | Some d \<Rightarrow>
             (case map_of (fds s) arg of
                None \<Rightarrow> (Inl (os_error EBADF), s)
              | Some a \<Rightarrow>
                  (if \<not> fd_write d \<or> \<not> fd_read a then (Inl (os_error EBADF), s)
                   else
                     (case clone_fault s of
                        Some e \<Rightarrow> (Inl (os_error e), s)
                      | None \<Rightarrow>
                          (case (inodes s (fd_ino a), inodes s (fd_ino d)) of
                             (Reg src_data src_m, Reg dst_data dst_m) \<Rightarrow>
                               (Inr (), s\<lparr>inodes := (inodes s)(fd_ino d := Reg src_data dst_m)\<rparr>)
                           | _ \<Rightarrow> (Inl (os_error EINVAL), s)))))))"

text \<open>\<open>ctypes.CDLL(name, use_errno=True)\<close>: the library the loader finds, or its error.\<close>

definition cdll :: "string \<Rightarrow> os_state \<Rightarrow> (exn + clib) \<times> os_state" where
  "cdll name s = (dylibs s name, logcall (SysDlopen name) s)"

text \<open>
  The native \<open>clonefile(src, dst, flags)\<close> of Darwin: a new file at \<open>dst\<close>, which must be
  free, with the content and the mode of \<open>src\<close>. Flag \<open>CLONE_NOFOLLOW\<close> (1) clones a
  symbolic link itself; no flag follows it; other flag bits are refused. It returns
  \<open>0\<close>, or \<open>-1\<close> with \<open>errno\<close> set.
\<close>

fun native_clonefile :: "bytes \<Rightarrow> bytes \<Rightarrow> int \<Rightarrow> os_state \<Rightarrow> int \<times> os_state" where
  "native_clonefile (Bytes src) (Bytes dst) flags s0 =
     (let s = logcall (SysClonefile (Bytes src) (Bytes dst) flags) s0 in
      if flags \<noteq> 0 \<and> flags \<noteq> 1 then (- 1, s\<lparr>c_errno := EINVAL\<rparr>)
      else
        (case (if flags = 0 then walk SYMLOOP_MAX s src else Inr src) of
           Inl e \<Rightarrow> (- 1, s\<lparr>c_errno := e\<rparr>)
         | Inr q \<Rightarrow>
             (case lookup s q of
                None \<Rightarrow> (- 1, s\<lparr>c_errno := ENOENT\<rparr>)
              | Some i \<Rightarrow>
                  (if lookup s dst \<noteq> None then (- 1, s\<lparr>c_errno := EEXIST\<rparr>)
                   else
                     (case clone_fault s of
                        Some e \<Rightarrow> (- 1, s\<lparr>c_errno := e\<rparr>)
                      | None \<Rightarrow>
                          (let j = fresh_ino s in
                           (0, s\<lparr>entries := entries s @ [(dst, j)],
                                 inodes := (inodes s)(j := inodes s i)\<rparr>)))))))"

definition ctypes_get_errno :: "os_state \<Rightarrow> errno" where
  "ctypes_get_errno s = c_errno s"


section \<open>\<open>dvc/system.py\<close>: class \<open>System\<close>\<close>


definition symlink :: "path \<Rightarrow> path \<Rightarrow> os_state \<Rightarrow> (exn + unit) \<times> os_state" where
  "symlink source link_name s = os_symlink source link_name s"

definition LIBC :: string where
  "LIBC = ''libc.dylib''"

definition LIBC_FALLBACK :: string where
  "LIBC_FALLBACK = ''/usr/lib/libSystem.dylib''"

text \<open>
  \<open>System._reflink_darwin\<close>. The \<open>logger.debug\<close> line of the \<open>except\<close> block writes to the
  log of the program only and is left out.
\<close>

definition reflink_darwin :: "path \<Rightarrow> path \<Rightarrow> os_state \<Rightarrow> (exn + unit) \<times> os_state" where
  "reflink_darwin src dst s =
     (case (case cdll LIBC s of
              (Inl (OSError en msg), s1) \<Rightarrow>
                (if en \<noteq> Some ENOENT then (Inl (OSError en msg), s1)
                 else cdll LIBC_FALLBACK s1)
            | (r, s1) \<Rightarrow> (r, s1)) of
        (Inl e, s1) \<Rightarrow> (Inl e, s1)
      | (Inr lib, s1) \<Rightarrow>
          (if \<not> has_clonefile lib
           then (Inl (OSError (Some ENOTSUP)
                        (quoted ''clonefile'' @ '' not supported by the standard library'')), s1)
           else
             (case native_clonefile (os_fsencode src) (os_fsencode dst) 0 s1 of
                (ret, s2) \<Rightarrow>
                  (if ret \<noteq> 0
                   then (let err = ctypes_get_errno s2; msg = strerror err
                         in (Inl (OSError (Some err) msg), s2))
                   else (Inr (), s2)))))"

text \<open>
  \<open>System._reflink_linux\<close>, in two parts. \<open>reflink_linux_body\<close> is the body of the
  \<open>try\<close> statement: the two file objects are closed when their \<open>with\<close> block is left, by
  the \<open>ioctl\<close> returning or raising, and a failure of the second \<open>open\<close> closes the first.
  \<open>reflink_linux\<close> adds the handler: \<open>except OSError\<close> catches that exception alone,
  \<open>suppress(OSError)\<close> discards an \<open>OSError\<close> of \<open>os.unlink\<close>, and the bare \<open>raise\<close> raises
  the caught exception again.
\<close>

definition reflink_linux_body :: "path \<Rightarrow> path \<Rightarrow> os_state \<Rightarrow> (exn + unit) \<times> os_state" where
  "reflink_linux_body src dst s =
     (case py_open src Mode_rb s of
        (Inl e, s1) \<Rightarrow> (Inl e, s1)
      | (Inr sfd, s1) \<Rightarrow>
          (case py_open dst Mode_wb_plus s1 of
             (Inl e, s2) \<Rightarrow> (Inl e, py_close sfd s2)
           | (Inr dfd, s2) \<Rightarrow>
               (case fcntl_ioctl dfd FICLONE sfd s2 of
                  (r, s3) \<Rightarrow> (r, py_close sfd (py_close dfd s3)))))"

definition reflink_linux :: "path \<Rightarrow> path \<Rightarrow> os_state \<Rightarrow> (exn + unit) \<times> os_state" where
  "reflink_linux src dst s =
     (case reflink_linux_body src dst s of
        (Inl (OSError en msg), s4) \<Rightarrow>
          (case os_unlink dst s4 of
             (Inl (OSError en' msg'), s5) \<Rightarrow> (Inl (OSError en msg), s5)
           | (Inl e', s5) \<Rightarrow> (Inl e', s5)
           | (Inr u, s5) \<Rightarrow> (Inl (OSError en msg), s5))
      | (r, s4) \<Rightarrow> (r, s4))"

text \<open>
  \<open>System.reflink\<close>. \<open>umask\<close> is the value the function imports from \<open>dvc.utils.fs\<close>, a
  module that is not part of the sources at hand: it is a parameter here.
\<close>

definition reflink :: "int \<Rightarrow> path \<Rightarrow> path \<Rightarrow> os_state \<Rightarrow> (exn + unit) \<times> os_state" where
  "reflink umask source0 link_name0 s =
     (let source = os_fspath source0;
          link_name = os_fspath link_name0;
          system = platform_system s
      in case (if system = ''Darwin'' then reflink_darwin source link_name s
               else if system = ''Linux'' then reflink_linux source link_name s
               else (Inl (OSError (Some ENOTSUP)
                            (''reflink is not supported on '' @ quoted system)), s)) of
           (Inl e, s1) \<Rightarrow> (Inl e, s1)
         | (Inr u, s1) \<Rightarrow> os_chmod link_name (438 AND NOT umask) s1)"


definition is_symlink :: "path \<Rightarrow> os_state \<Rightarrow> exn + bool" where
  "is_symlink p s = os_path_islink p s"



section \<open>\<open>dvc/repo/experiments/init.py\<close>\<close>

subsection \<open>Dictionaries and \<open>funcy\<close>\<close>

text \<open>
  A \<open>dict\<close> with \<open>str\<close> keys, as the list of its items in insertion order. Storing under
  a key that is present replaces the value in place; a new key goes to the end.
\<close>

type_synonym 'v pydict = "(string \<times> 'v) list"

fun dict_set :: "string \<Rightarrow> 'v \<Rightarrow> 'v pydict \<Rightarrow> 'v pydict" where
  "dict_set k v [] = [(k, v)]"
| "dict_set k v ((k', v') # d) = (if k = k' then (k, v) # d else (k', v') # dict_set k v d)"

definition dict_get :: "'v pydict \<Rightarrow> string \<Rightarrow> 'v option" where
  "dict_get d k = map_of d k"

text \<open>\<open>{**a, **b}\<close>\<close>

definition dict_merge :: "'v pydict \<Rightarrow> 'v pydict \<Rightarrow> 'v pydict" where
  "dict_merge a b = fold (\<lambda>(k, v) d. dict_set k v d) b a"

text \<open>\<open>d.pop(k)\<close>, which raises \<open>KeyError\<close> for a missing key; the result is the dictionary left.\<close>

definition dict_pop :: "string \<Rightarrow> 'v pydict \<Rightarrow> exn + 'v pydict" where
  "dict_pop k d =
     (if dict_get d k = None then Inl (KeyError k) else Inr (filter (\<lambda>e. fst e \<noteq> k) d))"

text \<open>\<open>d.pop(k, None)\<close>\<close>

definition dict_discard :: "string \<Rightarrow> 'v pydict \<Rightarrow> 'v pydict" where
  "dict_discard k d = filter (\<lambda>e. fst e \<noteq> k) d"

text \<open>The truth value of an optional string: \<open>None\<close> and the empty string are false.\<close>

fun truthy :: "string option \<Rightarrow> bool" where
  "truthy None = False"
| "truthy (Some v) = (v \<noteq> [])"

text \<open>\<open>funcy.compact\<close> on a dictionary and on a list: the items with a true value.\<close>

fun compact_dict :: "string option pydict \<Rightarrow> string pydict" where
  "compact_dict [] = []"
| "compact_dict ((k, None) # d) = compact_dict d"
| "compact_dict ((k, Some v) # d) = (if v = [] then compact_dict d else (k, v) # compact_dict d)"

fun compact_list :: "string option list \<Rightarrow> string list" where
  "compact_list [] = []"
| "compact_list (None # xs) = compact_list xs"
| "compact_list (Some v # xs) = (if v = [] then compact_list xs else v # compact_list xs)"

text \<open>
  \<open>funcy.lremove(provided.keys(), names)\<close>: a key view used as a predicate tests
  membership, so the result is the names that are not keys of \<open>provided\<close>.
\<close>

definition lremove_keys :: "'v pydict \<Rightarrow> string list \<Rightarrow> string list" where
  "lremove_keys provided names = filter (\<lambda>k. dict_get provided k = None) names"

text \<open>
  \<open>os.path.splitext(path)[1]\<close>: the text from the last dot of the last path component,
  when a character other than a dot comes before that dot in the component.
\<close>

definition splitext_ext :: "string \<Rightarrow> string" where
  "splitext_ext p =
     (let base = rev (takeWhile (\<lambda>c. c \<noteq> CHR ''/'') (rev p));
          ext = rev (takeWhile (\<lambda>c. c \<noteq> CHR ''.'') (rev base));
          stem = take (length base - length ext - 1) base
      in if CHR ''.'' \<in> set base \<and> (\<exists>c \<in> set stem. c \<noteq> CHR ''.'') then CHR ''.'' # ext else [])"


subsection \<open>The collaborators of \<open>init\<close>\<close>

text \<open>
  \<open>init\<close> works on a repository and on the terminal through code that is not part of the
  sources at hand: the pipeline file object (\<open>make_dvcfile\<close>, \<open>exists\<close>, \<open>stages\<close>), the
  parameter loaders (\<open>LOADERS\<close>), \<open>repo.stage.create\<close>, the serialiser of a stage, the
  stage's \<open>dump\<close> and \<open>ignore_outs\<close>, and \<open>ui.confirm\<close>. They are parameters of the model,
  over a type \<open>'repo\<close> of repository states (the files on disk, \<open>dvc.yaml\<close> among them) and
  a type \<open>'stage\<close> of stage objects. Those that only read the repository return a value
  or raise; \<open>dump\<close> and \<open>ignore_outs\<close> return the repository they leave; \<open>ui.confirm\<close>
  consumes typed lines and returns the answer.
\<close>

record create_args =
  ca_name :: string
  ca_cmd :: string
  ca_deps :: "string list"
  ca_params :: "(string \<times> string list) list"
  ca_metrics_no_cache :: "string list"
  ca_plots_no_cache :: "string list"
  ca_live :: "string option"
  ca_force :: bool
  ca_checkpoints :: "string list option"
  ca_outs :: "string list option"

record ('repo, 'stage) externals =
  dvcfile_exists :: "'repo \<Rightarrow> bool"
  dvcfile_has_stage :: "string \<Rightarrow> 'repo \<Rightarrow> exn + bool"
  load_params :: "string \<Rightarrow> string \<Rightarrow> 'repo \<Rightarrow> exn + string list"
  stage_create :: "create_args \<Rightarrow> 'repo \<Rightarrow> exn + 'stage"
  stage_yaml :: "'stage \<Rightarrow> string"
  ui_confirm :: "string \<Rightarrow> string list \<Rightarrow> (exn + bool) \<times> string list"
  stage_dump :: "'stage \<Rightarrow> 'repo \<Rightarrow> (exn + unit) \<times> 'repo"
  stage_ignore_outs :: "'stage \<Rightarrow> 'repo \<Rightarrow> (exn + unit) \<times> 'repo"

datatype prompt_cls = RequiredPrompt | SkippablePrompt

datatype renderable = Text string | Rule | Tree string "string list" | Syntax string

text \<open>
  What \<open>init\<close> does to the outside, in order: what it writes to the terminal, the
  questions it asks (class, text and default), the answer of a confirmation, and the
  calls that create, write and ignore a stage.
\<close>

datatype 'stage call =
    UiWrite "renderable list"
  | UiErrorWrite "renderable list"
  | CallAsk prompt_cls string "string option"
  | CallCreate create_args
  | CallConfirm string bool
  | CallDump 'stage
  | CallIgnoreOuts 'stage

record ('repo, 'stage) world =
  repo :: 'repo
  ui_input :: "string list"
  calls :: "'stage call list"

definition emit :: "'stage call \<Rightarrow> ('repo, 'stage) world \<Rightarrow> ('repo, 'stage) world" where
  "emit c w = w\<lparr>calls := calls w @ [c]\<rparr>"


subsection \<open>Prompts\<close>

definition PROMPTS :: "string pydict" where
  "PROMPTS =
    [(''cmd'', ''[b]Command[/b] to execute''),
     (''code'', ''Path to a [b]code[/b] file/directory''),
     (''data'', ''Path to a [b]data[/b] file/directory''),
     (''models'', ''Path to a [b]model[/b] file/directory''),
     (''params'', ''Path to a [b]parameters[/b] file''),
     (''metrics'', ''Path to a [b]metrics[/b] file''),
     (''plots'', ''Path to a [b]plots[/b] file/directory''),
     (''live'', ''Path to log [b]dvclive[/b] outputs'')]"

definition is_space :: "char \<Rightarrow> bool" where
  "is_space c = (c \<in> set [CHR '' '', CHR 0x09, CHR 0x0A, CHR 0x0B, CHR 0x0C, CHR 0x0D,
                            CHR 0x1C, CHR 0x1D, CHR 0x1E, CHR 0x1F])"

definition strip :: "string \<Rightarrow> string" where
  "strip v = rev (dropWhile is_space (rev (dropWhile is_space v)))"

text \<open>
  \<open>process_response\<close> of the two prompt classes. \<open>None\<close> is \<open>InvalidResponse\<close>; \<open>Some r\<close>
  is the value returned, itself \<open>None\<close> when a skippable prompt is answered by \<open>n\<close>. The
  base class strips the typed line.
\<close>

definition required_process_response :: "string \<Rightarrow> string option option" where
  "required_process_response v =
     (let ret = strip v in if ret = [] then None else Some (Some ret))"

definition skippable_process_response :: "string \<Rightarrow> string option option" where
  "skippable_process_response v =
     (case required_process_response v of
        None \<Rightarrow> None
      | Some ret \<Rightarrow> Some (if ret = Some ''n'' then None else ret))"

fun process_response :: "prompt_cls \<Rightarrow> string \<Rightarrow> string option option" where
  "process_response RequiredPrompt v = required_process_response v"
| "process_response SkippablePrompt v = skippable_process_response v"

text \<open>
  The loop of \<open>Prompt.ask\<close> over the lines the user types: an empty line returns the
  default when there is one, an invalid response is reported and the question asked again,
  and the end of the input raises \<open>EOFError\<close>, before which \<open>get_input\<close> writes an empty
  line. It returns the value and the lines left.
\<close>

fun ask_loop :: "prompt_cls \<Rightarrow> string option \<Rightarrow> string list \<Rightarrow> 'stage call list \<Rightarrow>
    (exn + string option) \<times> string list \<times> 'stage call list" where
  "ask_loop cls dflt [] out = (Inl EOFError, [], out @ [UiErrorWrite []])"
| "ask_loop cls dflt (v # rest) out =
     (if v = [] \<and> dflt \<noteq> None then (Inr dflt, rest, out)
      else (case process_response cls v of
              None \<Rightarrow>
                ask_loop cls dflt rest
                  (out @ [UiErrorWrite [Text ''[prompt.invalid]Response required. Please try again.'']])
            | Some r \<Rightarrow> (Inr r, rest, out)))"

definition prompt_ask ::
    "prompt_cls \<Rightarrow> string \<Rightarrow> string option \<Rightarrow> ('repo, 'stage) world \<Rightarrow>
       (exn + string option) \<times> ('repo, 'stage) world" where
  "prompt_ask cls text dflt w =
     (case ask_loop cls dflt (ui_input w) (calls w @ [CallAsk cls text dflt]) of
        (r, rest, out) \<Rightarrow> (r, w\<lparr>ui_input := rest, calls := out\<rparr>))"

text \<open>\<open>_prompts\<close>, with its \<open>post_processing(dict)\<close>: the dictionary of the answers.\<close>

fun prompts :: "string list \<Rightarrow> string pydict \<Rightarrow> ('repo, 'stage) world \<Rightarrow>
    (exn + string option pydict) \<times> ('repo, 'stage) world" where
  "prompts [] defaults w = (Inr [], w)"
| "prompts (key # keys) defaults w =
     (let prompt_cls = (if key = ''cmd'' then RequiredPrompt else SkippablePrompt);
          dflt = dict_get defaults key
      in case dict_get PROMPTS key of
           None \<Rightarrow> (Inl (KeyError key), w)
         | Some prompt \<Rightarrow>
             (case prompt_ask prompt_cls prompt dflt w of
                (Inl e, w1) \<Rightarrow> (Inl e, w1)
              | (Inr value, w1) \<Rightarrow>
                  (case prompts keys defaults w1 of
                     (Inl e, w2) \<Rightarrow> (Inl e, w2)
                   | (Inr d, w2) \<Rightarrow> (Inr (dict_merge [(key, value)] d), w2))))"

definition PIPELINE_FILE_LINK :: string where
  "PIPELINE_FILE_LINK = ''https://dvc.org/doc/user-guide/project-structure/pipelines-files''"

definition init_interactive ::
    "string \<Rightarrow> string pydict \<Rightarrow> string pydict \<Rightarrow> bool \<Rightarrow> bool \<Rightarrow> ('repo, 'stage) world \<Rightarrow>
       (exn + string pydict) \<times> ('repo, 'stage) world" where
  "init_interactive name defaults provided show_tree live w =
     (let primary = lremove_keys provided [''cmd'', ''code'', ''data'', ''models'', ''params''];
          secondary = lremove_keys provided (if live then [''live''] else [''metrics'', ''plots''])
      in if primary = [] \<and> secondary = [] then (Inr [], w)
         else
           (let w1 = emit (UiErrorWrite
                      [Text (''This command will guide you to set up a '' @ name @
                             '' stage in dvc.yaml.''),
                       Text (''See '' @ PIPELINE_FILE_LINK @ ''.''),
                       Text '''']) w;
                w2 = (if show_tree
                      then (let workspace = dict_discard ''cmd'' (dict_merge defaults provided);
                                workspace' = (if \<not> live \<and> dict_get provided ''live'' = None
                                              then dict_discard ''live'' workspace else workspace)
                            in emit (UiErrorWrite [])
                                 (emit (UiErrorWrite
                                    [Tree ''DVC assumes the following workspace structure:''
                                       (map (\<lambda>v. ''[green]'' @ v @ ''[/green]'')
                                          (sort (map snd workspace')))]) w1))
                      else w1)
            in case prompts primary defaults w2 of
                 (Inl e, w3) \<Rightarrow> (Inl e, w3)
               | (Inr d1, w3) \<Rightarrow>
                   (case prompts secondary defaults w3 of
                      (Inl e, w4) \<Rightarrow> (Inl e, w4)
                    | (Inr d2, w4) \<Rightarrow> (Inr (compact_dict (dict_merge d1 d2)), w4))))"


subsection \<open>\<open>init\<close>\<close>

definition CONFIRM_QUESTION :: string where
  "CONFIRM_QUESTION = ''Do you want to add the above contents to dvc.yaml?''"

definition check_stage_exists ::
    "('repo, 'stage) externals \<Rightarrow> 'repo \<Rightarrow> string \<Rightarrow> bool \<Rightarrow> exn + unit" where
  "check_stage_exists X dvcfile name force =
     (if force then Inr ()
      else if \<not> dvcfile_exists X dvcfile then Inr ()
      else (case dvcfile_has_stage X name dvcfile of
              Inl e \<Rightarrow> Inl e
            | Inr present \<Rightarrow>
                if present
                then Inl (DuplicateStageName
                       (''Stage '' @ quoted name @ '' already exists in '' @ quoted ''dvc.yaml'' @
                        ''. Use '' @ quoted ''--force'' @ '' to overwrite.''))
                else Inr ()))"

text \<open>
  \<open>init\<close> is modelled in the order of its text, one definition for each of its parts:
  the defaults (interactive or not), the parameters file, the arguments of
  \<open>repo.stage.create\<close>, and the end, which shows, confirms and writes the stage.
\<close>

text \<open>
  The \<open>if interactive\<close> statement: the answers of the wizard replace the defaults, or else
  the keys that do not apply are popped from them (\<open>pop\<close> raises \<open>KeyError\<close> for a key
  that is missing).
\<close>

definition init_defaults ::
    "string \<Rightarrow> string pydict \<Rightarrow> string pydict \<Rightarrow> bool \<Rightarrow> bool \<Rightarrow> ('repo, 'stage) world \<Rightarrow>
       (exn + string pydict) \<times> ('repo, 'stage) world" where
  "init_defaults name defaults overrides interactive with_live w =
     (if interactive
      then init_interactive name defaults overrides True with_live w
      else if with_live
      then (case dict_pop ''metrics'' defaults of
              Inl e \<Rightarrow> (Inl e, w)
            | Inr d \<Rightarrow> (dict_pop ''params'' d, w))
      else (dict_pop ''live'' defaults, w))"

text \<open>\<open>params_kv\<close>: the keys of the parameters file, read by the loader of its extension.\<close>

definition init_params ::
    "('repo, 'stage) externals \<Rightarrow> string pydict \<Rightarrow> 'repo \<Rightarrow> exn + (string \<times> string list) list" where
  "init_params X context r =
     (if truthy (dict_get context ''params'')
      then (let path = the (dict_get context ''params'')
            in case load_params X (splitext_ext path) path r of
                 Inl e \<Rightarrow> Inl e
               | Inr keys \<Rightarrow> Inr [(path, keys)])
      else Inr [])"

text \<open>The keyword arguments of \<open>repo.stage.create\<close>.\<close>

definition init_stage_args ::
    "string \<Rightarrow> string pydict \<Rightarrow> (string \<times> string list) list \<Rightarrow> bool \<Rightarrow> create_args" where
  "init_stage_args name context params_kv force =
     (let checkpoint_out = truthy (dict_get context ''live'');
          models = dict_get context ''models''
      in \<lparr>ca_name = name,
          ca_cmd = the (dict_get context ''cmd''),
          ca_deps = compact_list [dict_get context ''code'', dict_get context ''data''],
          ca_params = params_kv,
          ca_metrics_no_cache = compact_list [dict_get context ''metrics''],
          ca_plots_no_cache = compact_list [dict_get context ''plots''],
          ca_live = dict_get context ''live'',
          ca_force = force,
          ca_checkpoints = (if checkpoint_out then Some (compact_list [models]) else None),
          ca_outs = (if checkpoint_out then None else Some (compact_list [models]))\<rparr>)"

text \<open>
  The end of \<open>init\<close>, from the stage that was created: in interactive mode the stage is
  shown and the user is asked; then it is written and its outputs are ignored, or
  \<open>DvcException\<close> is raised. The \<open>_disable_logging\<close> block around \<open>dump\<close> changes the log
  level of the program for the time of the call and restores it; it is left out.
\<close>

definition init_write ::
    "('repo, 'stage) externals \<Rightarrow> 'stage \<Rightarrow> bool \<Rightarrow> ('repo, 'stage) world \<Rightarrow>
       (exn + 'stage) \<times> ('repo, 'stage) world" where
  "init_write X stage interactive w2 =
     (let w3 = (if interactive
                then emit (UiErrorWrite [Syntax (stage_yaml X stage)]) (emit (UiWrite [Rule]) w2)
                else w2)
      in case (if \<not> interactive then (Inr True, w3)
               else (case ui_confirm X CONFIRM_QUESTION (ui_input w3) of
                       (Inl e, rest) \<Rightarrow> (Inl e, w3\<lparr>ui_input := rest\<rparr>)
                     | (Inr b, rest) \<Rightarrow>
                         (Inr b, emit (CallConfirm CONFIRM_QUESTION b) (w3\<lparr>ui_input := rest\<rparr>)))) of
           (Inl e, w4) \<Rightarrow> (Inl e, w4)
         | (Inr False, w4) \<Rightarrow> (Inl (DvcException ''Aborting ...''), w4)
         | (Inr True, w4) \<Rightarrow>
             (case stage_dump X stage (repo w4) of
                (Inl e, r5) \<Rightarrow> (Inl e, (emit (CallDump stage) w4)\<lparr>repo := r5\<rparr>)
              | (Inr u5, r5) \<Rightarrow>
                  (case stage_ignore_outs X stage r5 of
                     (Inl e, r6) \<Rightarrow>
                       (Inl e, (emit (CallIgnoreOuts stage) (emit (CallDump stage) w4))\<lparr>repo := r6\<rparr>)
                   | (Inr u6, r6) \<Rightarrow>
                       (Inr stage,
                        (emit (CallIgnoreOuts stage) (emit (CallDump stage) w4))\<lparr>repo := r6\<rparr>))))"

text \<open>
  \<open>init\<close>. \<open>name\<close>, \<open>defaults\<close> and \<open>overrides\<close> may be \<open>None\<close>; \<open>tp\<close> is the parameter
  \<open>type\<close>.
\<close>

definition init ::
    "('repo, 'stage) externals \<Rightarrow> string option \<Rightarrow> string \<Rightarrow> string pydict option \<Rightarrow>
       string pydict option \<Rightarrow> bool \<Rightarrow> bool \<Rightarrow> ('repo, 'stage) world \<Rightarrow>
       (exn + 'stage) \<times> ('repo, 'stage) world" where
  "init X name0 tp defaults0 overrides0 interactive force w =
     (let name = (if truthy name0 then the name0 else tp) in
      case check_stage_exists X (repo w) name force of
        Inl e \<Rightarrow> (Inl e, w)
      | Inr u \<Rightarrow>
         (let defaults1 = (case defaults0 of None \<Rightarrow> [] | Some d \<Rightarrow> d);
              overrides = (case overrides0 of None \<Rightarrow> [] | Some d \<Rightarrow> d);
              with_live = (tp = ''live'')
          in case init_defaults name defaults1 overrides interactive with_live w of
               (Inl e, w1) \<Rightarrow> (Inl e, w1)
             | (Inr defaults, w1) \<Rightarrow>
                (let context = dict_merge defaults overrides in
                 if dict_get context ''cmd'' = None then (Inl AssertionError, w1)
                 else
                   case init_params X context (repo w1) of
                     Inl e \<Rightarrow> (Inl e, w1)
                   | Inr params_kv \<Rightarrow>
                      (let args = init_stage_args name context params_kv force;
                           w2 = emit (CallCreate args) w1
                       in case stage_create X args (repo w2) of
                            Inl e \<Rightarrow> (Inl e, w2)
                          | Inr stage \<Rightarrow> init_write X stage interactive w2))))"

text \<open>
  The calls that \<open>init\<close> can make before the user answers the confirmation: terminal
  output, questions and the creation of the stage.
\<close>

fun before_confirm :: "'stage call \<Rightarrow> bool" where
  "before_confirm (UiWrite x) = True"
| "before_confirm (UiErrorWrite x) = True"
| "before_confirm (CallAsk c t d) = True"
| "before_confirm (CallCreate a) = True"
| "before_confirm (CallConfirm q b) = False"
| "before_confirm (CallDump s) = False"
| "before_confirm (CallIgnoreOuts s) = False"


section \<open>Concrete systems for evaluation\<close>

text \<open>
  A small system: \<open>a.txt\<close> and \<open>b.txt\<close> are two names of one file, \<open>ln\<close> is a symbolic
  link to \<open>a.txt\<close>, \<open>c.txt\<close> is a file of its own with mode \<open>0o600\<close>, and \<open>dangling\<close> is
  a symbolic link to a name that is not bound.
\<close>

definition demo_os :: os_state where
  "demo_os =
     \<lparr>platform_system = ''Linux'',
      entries = [(''a.txt'', 1), (''b.txt'', 1), (''ln'', 2), (''c.txt'', 3), (''dangling'', 4)],
      inodes = (\<lambda>i. if i = 2 then Lnk ''a.txt'' else if i = 4 then Lnk ''nowhere''
                     else if i = 3 then Reg ''world'' 384 else Reg ''hello'' 420),
      fds = [],
      proc_umask = 18,
      clone_fault = None,
      dylibs = (\<lambda>n. Inl (OSError None ''image not found'')),
      c_errno = EINVAL,
      syslog = []\<rparr>"



text \<open>
  A small repository for \<open>init\<close>. Its state is the list of the stage names in \<open>dvc.yaml\<close>
  (\<open>None\<close> when the file does not exist) and the list of the ignored paths; a stage object
  is the arguments it was created from. \<open>dump\<close> adds the name of the stage to the file,
  \<open>ignore_outs\<close> adds its outputs to the ignored paths, and the confirmation takes one
  typed line and is true for \<open>y\<close>.
\<close>

definition demo_ext :: "(string list option \<times> string list, create_args) externals" where
  "demo_ext =
     \<lparr>dvcfile_exists = (\<lambda>r. fst r \<noteq> None),
      dvcfile_has_stage = (\<lambda>n r. Inr (case fst r of None \<Rightarrow> False | Some ns \<Rightarrow> n \<in> set ns)),
      load_params = (\<lambda>ext path r. Inr [''lr'']),
      stage_create = (\<lambda>a r. Inr a),
      stage_yaml = (\<lambda>s. ''stages: '' @ ca_name s),
      ui_confirm = (\<lambda>q inp. case inp of [] \<Rightarrow> (Inr False, []) | a # rest \<Rightarrow> (Inr (a = ''y''), rest)),
      stage_dump = (\<lambda>s r. (Inr (), (Some (case fst r of None \<Rightarrow> [ca_name s]
                                             | Some ns \<Rightarrow> ns @ [ca_name s]), snd r))),
      stage_ignore_outs = (\<lambda>s r. (Inr (), (fst r, snd r @ (case ca_outs s of None \<Rightarrow> []
                                                             | Some os \<Rightarrow> os))))\<rparr>"

text \<open>
  The repository holds a stage \<open>train\<close>. The user answers the six questions of the wizard
  (code, data, models, params, metrics, plots) and then the confirmation.
\<close>

definition demo_world :: "string list \<Rightarrow> (string list option \<times> string list, create_args) world" where
  "demo_world typed = \<lparr>repo = (Some [''train''], []), ui_input = typed, calls = []\<rparr>"

definition demo_answers :: "string list" where
  "demo_answers = [''src'', ''n'', ''model.pkl'', ''n'', ''n'', ''n'']"


section \<open>Properties of the link operations\<close>

subsection \<open>Auxiliary facts\<close>

lemma lookup_logcall [simp]: "lookup (logcall c s) = lookup s"
  by (rule ext) (simp add: lookup_def logcall_def)





subsection \<open>Unsupported platforms\<close>

text \<open>
  C1. On a platform whose identifier is neither \<open>Linux\<close> nor \<open>Darwin\<close>, \<open>reflink\<close> raises
  \<open>OSError\<close> with \<open>errno\<close> \<open>ENOTSUP\<close> for every source and target, and the system is left
  exactly as it was: no name is bound, no file is touched and no call is issued, the
  platform test coming before any of them.
\<close>

theorem reflink_unsupported_platform:
  assumes "platform_system s \<noteq> ''Linux''" and "platform_system s \<noteq> ''Darwin''"
  shows "reflink umask source target s =
           (Inl (OSError (Some ENOTSUP)
                   (''reflink is not supported on '' @ quoted (platform_system s))), s)"
  using assms by (simp add: reflink_def)

theorem reflink_unsupported_platform_witness:
  "platform_system (demo_os\<lparr>platform_system := ''Windows''\<rparr>) \<noteq> ''Linux'' \<and>
   platform_system (demo_os\<lparr>platform_system := ''Windows''\<rparr>) \<noteq> ''Darwin'' \<and>
   reflink 18 ''a.txt'' ''d.txt'' (demo_os\<lparr>platform_system := ''Windows''\<rparr>) =
     (Inl (OSError (Some ENOTSUP) (''reflink is not supported on '' @ quoted ''Windows'')),
      demo_os\<lparr>platform_system := ''Windows''\<rparr>) \<and>
   lookup (snd (reflink 18 ''a.txt'' ''d.txt'' (demo_os\<lparr>platform_system := ''Windows''\<rparr>))) ''d.txt'' = None"
  using reflink_unsupported_platform [of "demo_os\<lparr>platform_system := ''Windows''\<rparr>" 18 "''a.txt''" "''d.txt''"]
  by (simp add: demo_os_def lookup_def)


subsection \<open>Introspection\<close>





text \<open>
  C7. \<open>is_symlink\<close> returns a boolean for every path and never raises: \<open>False\<close> for a name
  that is not bound, and otherwise whether the entry itself is a symbolic link, wherever
  the link points.
\<close>

theorem is_symlink_never_raises:
  "(\<exists>b. is_symlink p s = Inr b) \<and>
   (lookup s p = None \<longrightarrow> is_symlink p s = Inr False) \<and>
   (\<forall>i. lookup s p = Some i \<longrightarrow> is_symlink p s = Inr (\<exists>q. inodes s i = Lnk q))"
  by (auto simp: is_symlink_def os_path_islink_def os_lstat_def os_error_def stat_of_def
        S_ISLNK_def split: node.splits option.splits)

theorem is_symlink_never_raises_witness:
  "lookup demo_os ''zz'' = None \<and> is_symlink ''zz'' demo_os = Inr False \<and>
   lookup demo_os ''dangling'' = Some 4 \<and> is_symlink ''dangling'' demo_os = Inr True \<and>
   lookup demo_os ''a.txt'' = Some 1 \<and> is_symlink ''a.txt'' demo_os = Inr False"
  using is_symlink_never_raises [of "''zz''" demo_os]
    is_symlink_never_raises [of "''dangling''" demo_os]
    is_symlink_never_raises [of "''a.txt''" demo_os]
  by (simp add: demo_os_def lookup_def)


subsection \<open>Hard links\<close>




subsection \<open>The effect of the system calls\<close>

lemma logcall_fields [simp]:
  "platform_system (logcall c s) = platform_system s"
  "entries (logcall c s) = entries s"
  "inodes (logcall c s) = inodes s"
  "fds (logcall c s) = fds s"
  "proc_umask (logcall c s) = proc_umask s"
  "clone_fault (logcall c s) = clone_fault s"
  "dylibs (logcall c s) = dylibs s"
  "c_errno (logcall c s) = c_errno s"
  "syslog (logcall c s) = syslog s @ [c]"
  by (simp_all add: logcall_def)

lemma fresh_logcall [simp]:
  "fresh_fd (logcall c s) = fresh_fd s" "fresh_ino (logcall c s) = fresh_ino s"
  by (simp_all add: fresh_fd_def fresh_ino_def)

lemma readlink_logcall [simp]: "readlink (logcall c s) = readlink s"
  by (rule ext) (simp add: readlink_def lookup_def logcall_def split: option.splits)

lemma walk_readlink_cong:
  "(\<And>x. readlink s' x = readlink s x) \<Longrightarrow> walk n s' p = walk n s p"
  by (induction n arbitrary: p) (simp_all split: option.splits)

lemma walk_logcall [simp]: "walk n (logcall c s) p = walk n s p"
  by (rule walk_readlink_cong) simp
















lemma readlink_py_close [simp]: "readlink (py_close fd s) = readlink s"
  by (rule ext) (simp add: readlink_def lookup_def py_close_def Let_def split: option.splits)

lemma lookup_py_close [simp]: "lookup (py_close fd s) = lookup s"
  by (rule ext) (simp add: lookup_def py_close_def Let_def)
















subsection \<open>Cloning on Linux\<close>




subsection \<open>The mode of a clone\<close>




subsection \<open>Cloning on Darwin\<close>




section \<open>Properties of \<open>init\<close>\<close>

subsection \<open>The effect of the wizard and of the end of \<open>init\<close>\<close>

lemma emit_fields [simp]:
  "repo (emit c w) = repo w" "ui_input (emit c w) = ui_input w" "calls (emit c w) = calls w @ [c]"
  by (simp_all add: emit_def)

lemma ask_loop_calls:
  "ask_loop cls d inp out = (r, rest, out') \<Longrightarrow>
     \<exists>new. out' = out @ new \<and> list_all before_confirm new"
proof (induction inp arbitrary: out)
  case Nil
  then show ?case by auto
next
  case (Cons v inp)
  show ?case
  proof (cases "v = [] \<and> d \<noteq> None")
    case True
    with Cons.prems show ?thesis by auto
  next
    case False
    show ?thesis
    proof (cases "process_response cls v")
      case None
      with False Cons.prems have
        "ask_loop cls d inp
           (out @ [UiErrorWrite [Text ''[prompt.invalid]Response required. Please try again.'']]) =
         (r, rest, out')" by auto
      from Cons.IH [OF this] show ?thesis by auto
    next
      case (Some a)
      with False Cons.prems show ?thesis by auto
    qed
  qed
qed

lemma prompt_ask_effect:
  assumes "prompt_ask cls t d w = (r, w')"
  shows "repo w' = repo w \<and> (\<exists>new. calls w' = calls w @ new \<and> list_all before_confirm new)"
proof -
  obtain r0 rest out where a: "ask_loop cls d (ui_input w) (calls w @ [CallAsk cls t d]) = (r0, rest, out)"
    by (metis prod_cases3)
  from ask_loop_calls [OF a] obtain new where "out = (calls w @ [CallAsk cls t d]) @ new"
    "list_all before_confirm new" by blast
  moreover from assms a have "w' = w\<lparr>ui_input := rest, calls := out\<rparr>"
    by (simp add: prompt_ask_def)
  ultimately show ?thesis
    by (auto intro!: exI [of _ "CallAsk cls t d # new"])
qed

lemma prompts_effect:
  "prompts keys defaults w = (r, w') \<Longrightarrow>
     repo w' = repo w \<and> (\<exists>new. calls w' = calls w @ new \<and> list_all before_confirm new)"
proof (induction keys arbitrary: w r w')
  case Nil
  then show ?case by auto
next
  case (Cons key keys)
  show ?case
  proof (cases "dict_get PROMPTS key")
    case None
    with Cons.prems show ?thesis by (auto simp: Let_def)
  next
    case (Some prompt)
    let ?cls = "if key = ''cmd'' then RequiredPrompt else SkippablePrompt"
    obtain r1 w1 where a: "prompt_ask ?cls prompt (dict_get defaults key) w = (r1, w1)" by force
    from prompt_ask_effect [OF a] obtain n1 where e1: "repo w1 = repo w"
      "calls w1 = calls w @ n1" "list_all before_confirm n1" by blast
    show ?thesis
    proof (cases r1)
      case (Inl e)
      with Cons.prems Some a have "w' = w1" by (simp add: Let_def)
      with e1 show ?thesis by auto
    next
      case (Inr v)
      obtain r2 w2 where b: "prompts keys defaults w1 = (r2, w2)" by force
      from Cons.IH [OF b] obtain n2 where e2: "repo w2 = repo w1"
        "calls w2 = calls w1 @ n2" "list_all before_confirm n2" by blast
      from Cons.prems Some a Inr b have "w' = w2"
        by (auto simp: Let_def split: sum.splits)
      with e1 e2 show ?thesis by (auto intro!: exI [of _ "n1 @ n2"])
    qed
  qed
qed

lemma init_interactive_effect:
  assumes run: "init_interactive name defaults provided show_tree live w = (r, w')"
  shows "repo w' = repo w \<and> (\<exists>new. calls w' = calls w @ new \<and> list_all before_confirm new)"
proof -
  define primary where
    "primary = lremove_keys provided [''cmd'', ''code'', ''data'', ''models'', ''params'']"
  define secondary where
    "secondary = lremove_keys provided (if live then [''live''] else [''metrics'', ''plots''])"
  show ?thesis
  proof (cases "primary = [] \<and> secondary = []")
    case True
    with run have "w' = w"
      by (simp add: init_interactive_def Let_def primary_def secondary_def)
    then show ?thesis by auto
  next
    case False
    define w1 where "w1 = emit (UiErrorWrite
                      [Text (''This command will guide you to set up a '' @ name @
                             '' stage in dvc.yaml.''),
                       Text (''See '' @ PIPELINE_FILE_LINK @ ''.''),
                       Text []]) w"
    define w2 where "w2 = (if show_tree
                      then (let workspace = dict_discard ''cmd'' (dict_merge defaults provided);
                                workspace' = (if \<not> live \<and> dict_get provided ''live'' = None
                                              then dict_discard ''live'' workspace else workspace)
                            in emit (UiErrorWrite [])
                                 (emit (UiErrorWrite
                                    [Tree ''DVC assumes the following workspace structure:''
                                       (map (\<lambda>v. ''[green]'' @ v @ ''[/green]'')
                                          (sort (map snd workspace')))]) w1))
                      else w1)"
    have e0: "repo w2 = repo w \<and> (\<exists>n0. calls w2 = calls w @ n0 \<and> list_all before_confirm n0)"
      by (auto simp: w2_def w1_def Let_def)
    then obtain n0 where n0: "repo w2 = repo w" "calls w2 = calls w @ n0"
      "list_all before_confirm n0" by blast
    obtain r3 w3 where p1: "prompts primary defaults w2 = (r3, w3)" by force
    from prompts_effect [OF p1] obtain n1 where n1: "repo w3 = repo w2"
      "calls w3 = calls w2 @ n1" "list_all before_confirm n1" by blast
    obtain r4 w4 where p2: "prompts secondary defaults w3 = (r4, w4)" by force
    from prompts_effect [OF p2] obtain n2 where n2: "repo w4 = repo w3"
      "calls w4 = calls w3 @ n2" "list_all before_confirm n2" by blast
    from run False have "w' = w3 \<or> w' = w4"
      unfolding init_interactive_def Let_def primary_def [symmetric] secondary_def [symmetric]
        w1_def [symmetric] w2_def [symmetric, unfolded Let_def]
      by (auto simp: p1 p2 split: sum.splits)
    then show ?thesis
    proof
      assume "w' = w3"
      with n0 n1 show ?thesis by (auto intro!: exI [of _ "n0 @ n1"])
    next
      assume "w' = w4"
      with n0 n1 n2 show ?thesis by (auto intro!: exI [of _ "n0 @ n1 @ n2"])
    qed
  qed
qed

lemma init_write_shape:
  assumes run: "init_write X stage True w2 = (r, w')"
  shows "\<exists>pre. list_all before_confirm pre \<and>
          ((\<exists>e. r = Inl e) \<and> calls w' = calls w2 @ pre \<and> repo w' = repo w2
           \<or> r = Inl (DvcException ''Aborting ...'') \<and>
               calls w' = calls w2 @ pre @ [CallConfirm CONFIRM_QUESTION False] \<and>
               repo w' = repo w2
           \<or> (\<exists>e. r = Inl e \<and>
                 calls w' = calls w2 @ pre @ [CallConfirm CONFIRM_QUESTION True, CallDump stage] \<and>
                 stage_dump X stage (repo w2) = (Inl e, repo w'))
           \<or> (\<exists>r5 res.
                 calls w' = calls w2 @ pre @
                   [CallConfirm CONFIRM_QUESTION True, CallDump stage, CallIgnoreOuts stage] \<and>
                 stage_dump X stage (repo w2) = (Inr (), r5) \<and>
                 stage_ignore_outs X stage r5 = (res, repo w') \<and>
                 r = (case res of Inl e \<Rightarrow> Inl e | Inr u \<Rightarrow> Inr stage)))"
    (is "\<exists>pre. ?P pre")
proof -
  let ?pre = "[UiWrite [Rule], UiErrorWrite [Syntax (stage_yaml X stage)]]"
  let ?w3 = "emit (UiErrorWrite [Syntax (stage_yaml X stage)]) (emit (UiWrite [Rule]) w2)"
  obtain c rest where c: "ui_confirm X CONFIRM_QUESTION (ui_input ?w3) = (c, rest)" by force
  have main: "?P ?pre"
  proof (cases c)
    case (Inl e)
    with run c have "r = Inl e" "w' = ?w3\<lparr>ui_input := rest\<rparr>"
      by (simp_all add: init_write_def Let_def)
    then show ?thesis by simp
  next
    case (Inr b)
    let ?w4 = "emit (CallConfirm CONFIRM_QUESTION b) (?w3\<lparr>ui_input := rest\<rparr>)"
    show ?thesis
    proof (cases b)
      case False
      with run c Inr have "r = Inl (DvcException ''Aborting ...'')" "w' = ?w4"
        by (simp_all add: init_write_def Let_def)
      with False show ?thesis by simp
    next
      case True
      obtain d r5 where d: "stage_dump X stage (repo w2) = (d, r5)" by force
      show ?thesis
      proof (cases d)
        case (Inl e)
        with run c Inr True d have "r = Inl e" "w' = (emit (CallDump stage) ?w4)\<lparr>repo := r5\<rparr>"
          by (simp_all add: init_write_def Let_def)
        with True d Inl show ?thesis by simp
      next
        case dump_ok: (Inr u)
        obtain res r6 where g: "stage_ignore_outs X stage r5 = (res, r6)" by force
        from run c Inr True d dump_ok g
        have "r = (case res of Inl e \<Rightarrow> Inl e | Inr u \<Rightarrow> Inr stage)"
          "w' = (emit (CallIgnoreOuts stage) (emit (CallDump stage) ?w4))\<lparr>repo := r6\<rparr>"
          by (simp_all add: init_write_def Let_def split: sum.splits)
        with True d dump_ok g show ?thesis by simp
      qed
    qed
  qed
  show ?thesis by (rule exI [of _ ?pre], rule main)
qed


subsection \<open>A stage that exists\<close>

text \<open>
  C9. Without \<open>force\<close>, when \<open>dvc.yaml\<close> exists and holds a stage of the name (the name
  given, or the type when no name is given), \<open>init\<close> raises \<open>DuplicateStageName\<close> and the
  world is exactly as before: no question was asked, nothing was written to the terminal
  and no stage was created, in interactive mode and out of it, whatever the collaborators
  would have done. With \<open>force\<close>, \<open>_check_stage_exists\<close> returns without looking at the
  file, and what \<open>init\<close> does is the same whatever \<open>exists\<close> and \<open>stages\<close> would answer.
\<close>

theorem init_duplicate_stage:
  "(dvcfile_exists X (repo w) \<and>
    dvcfile_has_stage X (if truthy name then the name else tp) (repo w) = Inr True \<longrightarrow>
      init X name tp defaults overrides interactive False w =
        (Inl (DuplicateStageName
               (''Stage '' @ quoted (if truthy name then the name else tp) @
                '' already exists in '' @ quoted ''dvc.yaml'' @
                ''. Use '' @ quoted ''--force'' @ '' to overwrite.'')), w)) \<and>
   check_stage_exists X dvcfile nm True = Inr () \<and>
   init (X\<lparr>dvcfile_exists := ex, dvcfile_has_stage := hs\<rparr>) name tp defaults overrides
       interactive True w =
     init X name tp defaults overrides interactive True w"
proof -
  let ?X = "X\<lparr>dvcfile_exists := ex, dvcfile_has_stage := hs\<rparr>"
  have p: "init_params ?X = init_params X"
    by (rule ext)+ (simp add: init_params_def)
  have wr: "init_write ?X = init_write X"
    by (rule ext)+
      (simp add: init_write_def Let_def cong: sum.case_cong prod.case_cong bool.case_cong)
  have cr: "stage_create ?X = stage_create X"
    by simp
  have same: "init ?X name tp defaults overrides interactive True w =
     init X name tp defaults overrides interactive True w"
    unfolding init_def check_stage_exists_def p wr cr by simp
  have dup: "dvcfile_exists X (repo w) \<and>
    dvcfile_has_stage X (if truthy name then the name else tp) (repo w) = Inr True \<longrightarrow>
      init X name tp defaults overrides interactive False w =
        (Inl (DuplicateStageName
               (''Stage '' @ quoted (if truthy name then the name else tp) @
                '' already exists in '' @ quoted ''dvc.yaml'' @
                ''. Use '' @ quoted ''--force'' @ '' to overwrite.'')), w)"
    by (simp add: init_def check_stage_exists_def Let_def)
  have skip: "check_stage_exists X dvcfile nm True = Inr ()"
    by (simp add: check_stage_exists_def)
  from dup skip same show ?thesis by (intro conjI)
qed

theorem init_duplicate_stage_witness:
  "dvcfile_exists demo_ext (repo (demo_world demo_answers)) \<and>
   dvcfile_has_stage demo_ext ''train'' (repo (demo_world demo_answers)) = Inr True \<and>
   init demo_ext (Some ''train'') ''default'' None (Some [(''cmd'', ''python train.py'')]) True False
       (demo_world demo_answers) =
     (Inl (DuplicateStageName
            (''Stage '' @ quoted ''train'' @ '' already exists in '' @ quoted ''dvc.yaml'' @
             ''. Use '' @ quoted ''--force'' @ '' to overwrite.'')), demo_world demo_answers) \<and>
   check_stage_exists demo_ext (repo (demo_world demo_answers)) ''train'' True = Inr ()"
proof -
  have h: "dvcfile_exists demo_ext (repo (demo_world demo_answers))"
    "dvcfile_has_stage demo_ext ''train'' (repo (demo_world demo_answers)) = Inr True"
    by (simp_all add: demo_ext_def demo_world_def)
  with init_duplicate_stage [of demo_ext "demo_world demo_answers" "Some ''train''" "''default''"
      None "Some [(''cmd'', ''python train.py'')]" True "repo (demo_world demo_answers)" "''train''"]
  show ?thesis by simp
qed


subsection \<open>The confirmation\<close>

text \<open>
  C10. In interactive mode the calls of a run of \<open>init\<close> are, after calls that only ask,
  show or create, one of: nothing more, and \<open>init\<close> raised with the repository unchanged;
  the confirmation answered no, and \<open>init\<close> raised \<open>DvcException\<close> with the repository
  unchanged and no \<open>dump\<close>; or the confirmation answered yes followed by \<open>dump\<close> and, when
  \<open>dump\<close> succeeded, by \<open>ignore_outs\<close>, the stage being returned when both succeeded. So a
  stage is written and its outputs are ignored only after the user confirmed.
\<close>

theorem init_confirm_gate:
  assumes run: "init X name0 tp defaults0 overrides0 True force w = (r, w')"
  shows "\<exists>pre. list_all before_confirm pre \<and>
          ((\<exists>e. r = Inl e) \<and> calls w' = calls w @ pre \<and> repo w' = repo w
           \<or> r = Inl (DvcException ''Aborting ...'') \<and>
               calls w' = calls w @ pre @ [CallConfirm CONFIRM_QUESTION False] \<and>
               repo w' = repo w
           \<or> (\<exists>stage e. r = Inl e \<and>
                 calls w' = calls w @ pre @ [CallConfirm CONFIRM_QUESTION True, CallDump stage] \<and>
                 stage_dump X stage (repo w) = (Inl e, repo w'))
           \<or> (\<exists>stage r5 res.
                 calls w' = calls w @ pre @
                   [CallConfirm CONFIRM_QUESTION True, CallDump stage, CallIgnoreOuts stage] \<and>
                 stage_dump X stage (repo w) = (Inr (), r5) \<and>
                 stage_ignore_outs X stage r5 = (res, repo w') \<and>
                 r = (case res of Inl e \<Rightarrow> Inl e | Inr u \<Rightarrow> Inr stage)))"
    (is "\<exists>pre. ?P pre")
proof -
  let ?name = "if truthy name0 then the name0 else tp"
  let ?defaults1 = "case defaults0 of None \<Rightarrow> [] | Some d \<Rightarrow> d"
  let ?overrides = "case overrides0 of None \<Rightarrow> [] | Some d \<Rightarrow> d"
  have early: "?P n" if "list_all before_confirm n" "calls w' = calls w @ n" "repo w' = repo w"
    "r = Inl e" for n e
    using that by simp
  show ?thesis
  proof (cases "check_stage_exists X (repo w) ?name force")
    case (Inl e)
    with run have "r = Inl e" "w' = w" by (simp_all add: init_def Let_def)
    then have "?P []" by simp
    then show ?thesis by (rule exI [of _ "[]"])
  next
    case chk: (Inr u)
    obtain r1 w1 where ii:
      "init_interactive ?name ?defaults1 ?overrides True (tp = ''live'') w = (r1, w1)" by force
    from init_interactive_effect [OF ii] obtain n1 where n1: "repo w1 = repo w"
      "calls w1 = calls w @ n1" "list_all before_confirm n1" by blast
    show ?thesis
    proof (cases r1)
      case (Inl e)
      with run chk ii have "r = Inl e" "w' = w1"
        by (simp_all add: init_def Let_def init_defaults_def)
      with n1 have "?P n1" by (intro early) simp_all
      then show ?thesis by (rule exI [of _ n1])
    next
      case dflt: (Inr defaults)
      let ?ctx = "dict_merge defaults ?overrides"
      show ?thesis
      proof (cases "dict_get ?ctx ''cmd'' = None")
        case True
        with run chk ii dflt have "r = Inl AssertionError" "w' = w1"
          by (simp_all add: init_def Let_def init_defaults_def)
        with n1 have "?P n1" by (intro early) simp_all
        then show ?thesis by (rule exI [of _ n1])
      next
        case cmd: False
        show ?thesis
        proof (cases "init_params X ?ctx (repo w1)")
          case (Inl e)
          with run chk ii dflt cmd have "r = Inl e" "w' = w1"
            by (simp_all add: init_def Let_def init_defaults_def)
          with n1 have "?P n1" by (intro early) simp_all
          then show ?thesis by (rule exI [of _ n1])
        next
          case pkv: (Inr params_kv)
          let ?args = "init_stage_args ?name ?ctx params_kv force"
          let ?w2 = "emit (CallCreate ?args) w1"
          show ?thesis
          proof (cases "stage_create X ?args (repo w1)")
            case (Inl e)
            with run chk ii dflt cmd pkv have "r = Inl e" "w' = ?w2"
              by (simp_all add: init_def Let_def init_defaults_def)
            with n1 have "?P (n1 @ [CallCreate ?args])" by (intro early) simp_all
            then show ?thesis by (rule exI [of _ "n1 @ [CallCreate ?args]"])
          next
            case cr: (Inr stage)
            with run chk ii dflt cmd pkv have fin: "init_write X stage True ?w2 = (r, w')"
              by (simp add: init_def Let_def init_defaults_def)
            from init_write_shape [OF fin] obtain pre where pre: "list_all before_confirm pre"
              and alt: "(\<exists>e. r = Inl e) \<and> calls w' = calls ?w2 @ pre \<and> repo w' = repo ?w2
           \<or> r = Inl (DvcException ''Aborting ...'') \<and>
               calls w' = calls ?w2 @ pre @ [CallConfirm CONFIRM_QUESTION False] \<and>
               repo w' = repo ?w2
           \<or> (\<exists>e. r = Inl e \<and>
                 calls w' = calls ?w2 @ pre @ [CallConfirm CONFIRM_QUESTION True, CallDump stage] \<and>
                 stage_dump X stage (repo ?w2) = (Inl e, repo w'))
           \<or> (\<exists>r5 res.
                 calls w' = calls ?w2 @ pre @
                   [CallConfirm CONFIRM_QUESTION True, CallDump stage, CallIgnoreOuts stage] \<and>
                 stage_dump X stage (repo ?w2) = (Inr (), r5) \<and>
                 stage_ignore_outs X stage r5 = (res, repo w') \<and>
                 r = (case res of Inl e \<Rightarrow> Inl e | Inr u \<Rightarrow> Inr stage))"
              by blast
            let ?pre = "n1 @ CallCreate ?args # pre"
            have ok: "list_all before_confirm ?pre" using n1 pre by simp
            from alt have "?P ?pre"
            proof (elim disjE conjE exE)
              fix e assume "r = Inl e" "calls w' = calls ?w2 @ pre" "repo w' = repo ?w2"
              with n1 ok show ?thesis by simp
            next
              assume "r = Inl (DvcException ''Aborting ...'')"
                "calls w' = calls ?w2 @ pre @ [CallConfirm CONFIRM_QUESTION False]"
                "repo w' = repo ?w2"
              with n1 ok show ?thesis by simp
            next
              fix e assume "r = Inl e"
                "calls w' = calls ?w2 @ pre @ [CallConfirm CONFIRM_QUESTION True, CallDump stage]"
                "stage_dump X stage (repo ?w2) = (Inl e, repo w')"
              with n1 ok show ?thesis by auto
            next
              fix r5 res assume "calls w' = calls ?w2 @ pre @
                   [CallConfirm CONFIRM_QUESTION True, CallDump stage, CallIgnoreOuts stage]"
                "stage_dump X stage (repo ?w2) = (Inr (), r5)"
                "stage_ignore_outs X stage r5 = (res, repo w')"
                "r = (case res of Inl e \<Rightarrow> Inl e | Inr u \<Rightarrow> Inr stage)"
              with n1 ok show ?thesis by auto
            qed
            then show ?thesis by (rule exI [of _ ?pre])
          qed
        qed
      qed
    qed
  qed
qed

theorem init_confirm_gate_witness:
  "fst (init demo_ext None ''default'' None (Some [(''cmd'', ''python train.py'')]) True False
         (demo_world (demo_answers @ [''n'']))) = Inl (DvcException ''Aborting ...'') \<and>
   repo (snd (init demo_ext None ''default'' None (Some [(''cmd'', ''python train.py'')]) True False
         (demo_world (demo_answers @ [''n''])))) = (Some [''train''], []) \<and>
   repo (snd (init demo_ext None ''default'' None (Some [(''cmd'', ''python train.py'')]) True False
         (demo_world (demo_answers @ [''y''])))) = (Some [''train'', ''default''], [''model.pkl'']) \<and>
   (\<exists>pre. list_all before_confirm pre \<and>
      calls (snd (init demo_ext None ''default'' None (Some [(''cmd'', ''python train.py'')]) True
         False (demo_world (demo_answers @ [''n''])))) =
        calls (demo_world (demo_answers @ [''n''])) @ pre @ [CallConfirm CONFIRM_QUESTION False])"
proof -
  let ?run = "init demo_ext None ''default'' None (Some [(''cmd'', ''python train.py'')]) True False
         (demo_world (demo_answers @ [''n'']))"
  have r: "fst ?run = Inl (DvcException ''Aborting ...'')" by code_simp
  have s: "repo (snd ?run) = (Some [''train''], [])" by code_simp
  have y: "repo (snd (init demo_ext None ''default'' None (Some [(''cmd'', ''python train.py'')])
         True False (demo_world (demo_answers @ [''y''])))) =
      (Some [''train'', ''default''], [''model.pkl''])" by code_simp
  have lastc: "last (calls (snd ?run)) = CallConfirm CONFIRM_QUESTION False" by code_simp
  have noisy: "\<not> list_all before_confirm (calls (snd ?run))" by code_simp
  have run: "?run = (fst ?run, snd ?run)" by simp
  from init_confirm_gate [OF run] obtain pre where pre: "list_all before_confirm pre"
    and alt: "(\<exists>e. fst ?run = Inl e) \<and> calls (snd ?run) = calls (demo_world (demo_answers @ [''n''])) @ pre \<and>
            repo (snd ?run) = repo (demo_world (demo_answers @ [''n'']))
           \<or> fst ?run = Inl (DvcException ''Aborting ...'') \<and>
               calls (snd ?run) = calls (demo_world (demo_answers @ [''n''])) @ pre @
                 [CallConfirm CONFIRM_QUESTION False] \<and>
               repo (snd ?run) = repo (demo_world (demo_answers @ [''n'']))
           \<or> (\<exists>stage e. fst ?run = Inl e \<and>
                 calls (snd ?run) = calls (demo_world (demo_answers @ [''n''])) @ pre @
                   [CallConfirm CONFIRM_QUESTION True, CallDump stage] \<and>
                 stage_dump demo_ext stage (repo (demo_world (demo_answers @ [''n'']))) =
                   (Inl e, repo (snd ?run)))
           \<or> (\<exists>stage r5 res.
                 calls (snd ?run) = calls (demo_world (demo_answers @ [''n''])) @ pre @
                   [CallConfirm CONFIRM_QUESTION True, CallDump stage, CallIgnoreOuts stage] \<and>
                 stage_dump demo_ext stage (repo (demo_world (demo_answers @ [''n'']))) = (Inr (), r5) \<and>
                 stage_ignore_outs demo_ext stage r5 = (res, repo (snd ?run)) \<and>
                 fst ?run = (case res of Inl e \<Rightarrow> Inl e | Inr u \<Rightarrow> Inr stage))"
    by blast
  have c0: "calls (demo_world (demo_answers @ [''n''])) = []" by (simp add: demo_world_def)
  from alt have "calls (snd ?run) = pre @ [CallConfirm CONFIRM_QUESTION False]"
  proof (elim disjE conjE exE)
    assume "calls (snd ?run) = calls (demo_world (demo_answers @ [''n''])) @ pre"
    with c0 noisy pre have False by simp
    then show ?thesis ..
  next
    assume "calls (snd ?run) = calls (demo_world (demo_answers @ [''n''])) @ pre @
                 [CallConfirm CONFIRM_QUESTION False]"
    with c0 show ?thesis by simp
  next
    fix stage e
    assume "calls (snd ?run) = calls (demo_world (demo_answers @ [''n''])) @ pre @
                   [CallConfirm CONFIRM_QUESTION True, CallDump stage]"
    with lastc show ?thesis by simp
  next
    fix stage r5 res
    assume "calls (snd ?run) = calls (demo_world (demo_answers @ [''n''])) @ pre @
                   [CallConfirm CONFIRM_QUESTION True, CallDump stage, CallIgnoreOuts stage]"
    with lastc show ?thesis by simp
  qed
  with pre c0 r s y show ?thesis by auto
qed

end
